theory Spec2Isabelle
  imports Main
begin

section \<open>The outside world: external commands and their captured output\<close>

text \<open>
  The application (\<^verbatim>\<open>src/lxpanic.py\<close>, class \<^verbatim>\<open>AdbTetherApp\<close>) does all its work by
  spawning external commands (\<^verbatim>\<open>asyncio.create_subprocess_exec\<close> followed by
  \<^verbatim>\<open>communicate()\<close>) and reading what they print. A spawn either raises
  \<^verbatim>\<open>FileNotFoundError\<close>, raises some other exception, or ends with a return code and
  the captured bytes of stdout and stderr.
\<close>

datatype outcome =
    FileNotFoundError
  | OtherException
  | Exited (returncode: int) (stdout: string) (stderr: string)

text \<open>
  The environment answers a command line (\<^verbatim>\<open>argv\<close>) with an outcome. The answer may
  depend on everything spawned before (the device changes when it is told to, cables get
  unplugged between two calls), so the environment reads the history of spawns.
\<close>

type_synonym history = "(string list \<times> outcome) list"
type_synonym env = "history \<Rightarrow> string list \<Rightarrow> outcome"

subsection \<open>Bytes and text\<close>

text \<open>
  Captured output is \<^verbatim>\<open>bytes\<close>, and a HOL \<^typ>\<open>char\<close> is one byte. \<^verbatim>\<open>bytes.decode()\<close>
  raises \<^verbatim>\<open>UnicodeDecodeError\<close> exactly when the bytes are not well-formed UTF-8:
  \<open>utf8_valid\<close> follows the table of well-formed byte sequences (no overlong forms, no
  surrogates, nothing above \<^verbatim>\<open>U+10FFFF\<close>).
\<close>

definition byte :: "char \<Rightarrow> nat" where
  "byte c = of_char c"

definition between :: "nat \<Rightarrow> char \<Rightarrow> nat \<Rightarrow> bool" where
  "between lo c hi \<longleftrightarrow> lo \<le> byte c \<and> byte c \<le> hi"

definition cont :: "char \<Rightarrow> bool" where
  "cont c \<longleftrightarrow> between 0x80 c 0xBF"

definition two :: "char \<Rightarrow> char \<Rightarrow> bool" where
  "two a b \<longleftrightarrow> between 0xC2 a 0xDF \<and> cont b"

definition three :: "char \<Rightarrow> char \<Rightarrow> char \<Rightarrow> bool" where
  "three a b c \<longleftrightarrow>
     (byte a = 0xE0 \<and> between 0xA0 b 0xBF \<and> cont c) \<or>
     ((between 0xE1 a 0xEC \<or> between 0xEE a 0xEF) \<and> cont b \<and> cont c) \<or>
     (byte a = 0xED \<and> between 0x80 b 0x9F \<and> cont c)"

definition four :: "char \<Rightarrow> char \<Rightarrow> char \<Rightarrow> char \<Rightarrow> bool" where
  "four a b c d \<longleftrightarrow>
     (byte a = 0xF0 \<and> between 0x90 b 0xBF \<and> cont c \<and> cont d) \<or>
     (between 0xF1 a 0xF3 \<and> cont b \<and> cont c \<and> cont d) \<or>
     (byte a = 0xF4 \<and> between 0x80 b 0x8F \<and> cont c \<and> cont d)"

fun utf8_valid :: "string \<Rightarrow> bool" where
  "utf8_valid [] = True"
| "utf8_valid [a] = (byte a < 0x80)"
| "utf8_valid [a, b] = (if byte a < 0x80 then utf8_valid [b] else two a b)"
| "utf8_valid [a, b, c] =
     (if byte a < 0x80 then utf8_valid [b, c]
      else if two a b then utf8_valid [c]
      else three a b c)"
| "utf8_valid (a # b # c # d # r) =
     (if byte a < 0x80 then utf8_valid (b # c # d # r)
      else if two a b then utf8_valid (c # d # r)
      else if three a b c then utf8_valid (d # r)
      else four a b c d \<and> utf8_valid r)"

text \<open>
  The text of this model is ASCII text: on bytes below \<^verbatim>\<open>0x80\<close> decoding is the identity.
  Well-formed bytes that encode other characters decode, in the source, to text that a
  \<^typ>\<open>char\<close> list cannot hold; \<open>decode\<close> gives \<open>None\<close> for them as it does for bytes that
  raise, and the model goes on as after the \<^verbatim>\<open>UnicodeDecodeError\<close>. Theorems about parsed
  output therefore speak about output that decodes here.
\<close>

definition is_ascii :: "char \<Rightarrow> bool" where
  "is_ascii c \<longleftrightarrow> \<not> digit7 c"

definition decode :: "string \<Rightarrow> string option" where
  "decode b = (if list_all is_ascii b then Some b else None)"

text \<open>\<^verbatim>\<open>str.isspace\<close> on ASCII: tab, LF, VT, FF, CR, FS, GS, RS, US and space.\<close>

definition isspace :: "char \<Rightarrow> bool" where
  "isspace c \<longleftrightarrow> c \<in> set [CHR 0x09, CHR 0x0A, CHR 0x0B, CHR 0x0C, CHR 0x0D,
                            CHR 0x1C, CHR 0x1D, CHR 0x1E, CHR 0x1F, CHR 0x20]"

text \<open>\<^verbatim>\<open>s.strip()\<close>: leading and trailing whitespace removed.\<close>

definition strip :: "string \<Rightarrow> string" where
  "strip s = rev (dropWhile isspace (rev (dropWhile isspace s)))"

text \<open>
  \<^verbatim>\<open>s.splitlines()\<close>: the line boundaries of ASCII text are LF, CR, CR LF, VT, FF, FS,
  GS and RS; the boundaries are dropped, and a final boundary opens no further line.
  \<open>splitlines_from cur s\<close> carries the characters of the line being read.
\<close>

definition is_linebreak :: "char \<Rightarrow> bool" where
  "is_linebreak c \<longleftrightarrow> c \<in> set [CHR 0x0A, CHR 0x0D, CHR 0x0B, CHR 0x0C,
                               CHR 0x1C, CHR 0x1D, CHR 0x1E]"

fun splitlines_from :: "string \<Rightarrow> string \<Rightarrow> string list" where
  "splitlines_from cur [] = (if cur = [] then [] else [cur])"
| "splitlines_from cur [c] = (if is_linebreak c then [cur] else [cur @ [c]])"
| "splitlines_from cur (c # d # cs) =
     (if c = CHR 0x0D \<and> d = CHR 0x0A then cur # splitlines_from [] cs
      else if is_linebreak c then cur # splitlines_from [] (d # cs)
      else splitlines_from (cur @ [c]) (d # cs))"

definition splitlines :: "string \<Rightarrow> string list" where
  "splitlines s = splitlines_from [] s"

text \<open>\<^verbatim>\<open>sub in s\<close> on strings: \<open>sub\<close> occurs in \<open>s\<close> as a contiguous run.\<close>

fun contains :: "string \<Rightarrow> string \<Rightarrow> bool" where
  "contains [] sub = (sub = [])"
| "contains (c # cs) sub = (take (length sub) (c # cs) = sub \<or> contains cs sub)"

text \<open>\<^verbatim>\<open>s.split('\t')[0]\<close>: the text before the first tab (all of \<open>s\<close> when it has none).\<close>

definition split_tab_first :: "string \<Rightarrow> string" where
  "split_tab_first s = takeWhile (\<lambda>c. c \<noteq> CHR 0x09) s"

text \<open>\<^verbatim>\<open>sep.join(xs)\<close>.\<close>

fun join :: "string \<Rightarrow> string list \<Rightarrow> string" where
  "join sep [] = []"
| "join sep [x] = x"
| "join sep (x # y # xs) = x @ sep @ join sep (y # xs)"

section \<open>The application state\<close>

text \<open>
  The four reactive attributes of \<^verbatim>\<open>AdbTetherApp\<close>, the module global \<^verbatim>\<open>DEVICE_SERIAL\<close>
  (written by \<^verbatim>\<open>check_adb_connection\<close>, read everywhere else) and the history of
  spawned commands. The message log and the widgets that mirror the reactive attributes
  only display; they are left out. \<^verbatim>\<open>ADB_PATH\<close> is never written.
\<close>

record app =
  adb_status :: string
  device_info :: string
  linux_iface_status :: string
  adb_ready :: bool
  DEVICE_SERIAL :: string
  spawned :: history

definition ADB_PATH :: string where
  "ADB_PATH = ''adb''"

text \<open>The state at start-up, with the serial the script was configured with.\<close>

definition initial :: "string \<Rightarrow> app" where
  "initial serial = \<lparr>adb_status = ''Unknown'', device_info = ''N/A'',
     linux_iface_status = ''Unknown'', adb_ready = False, DEVICE_SERIAL = serial,
     spawned = []\<rparr>"

text \<open>Spawn a command, wait for it, and record it with its outcome.\<close>

definition create_subprocess_exec :: "env \<Rightarrow> app \<Rightarrow> string list \<Rightarrow> outcome \<times> app" where
  "create_subprocess_exec env s argv =
     (let out = env (spawned s) argv
      in (out, s\<lparr>spawned := spawned s @ [(argv, out)]\<rparr>))"

section \<open>\<^verbatim>\<open>run_adb_command\<close>\<close>

text \<open>
  Lines 128 to 163. The command line is \<^verbatim>\<open>ADB_PATH\<close>, then \<^verbatim>\<open>-s DEVICE_SERIAL\<close> when a
  serial is bound, then the arguments. The result is \<open>True\<close> exactly when the process
  ended with return code 0 and writing its output to the log raised nothing: the log line
  decodes stdout (when it is not empty), inside the \<^verbatim>\<open>try\<close>, so bytes that do not decode
  end in \<^verbatim>\<open>except Exception\<close> and \<open>False\<close>. Only whether decoding raises matters
  here, not the text.
\<close>

definition full_command :: "app \<Rightarrow> string list \<Rightarrow> string list" where
  "full_command s command_args =
     [ADB_PATH] @ (if DEVICE_SERIAL s \<noteq> [] then [''-s'', DEVICE_SERIAL s] else [])
       @ command_args"

definition run_adb_command :: "env \<Rightarrow> app \<Rightarrow> string list \<Rightarrow> bool \<times> app" where
  "run_adb_command env s command_args =
     (case create_subprocess_exec env s (full_command s command_args) of
        (FileNotFoundError, s') \<Rightarrow> (False, s')
      | (OtherException, s') \<Rightarrow> (False, s')
      | (Exited rc out err, s') \<Rightarrow>
          if rc = 0 then
            (if out \<noteq> [] then (if utf8_valid out then (True, s') else (False, s'))
             else (True, s'))
          else (False, s'))"

section \<open>\<^verbatim>\<open>check_adb_connection\<close>\<close>

text \<open>
  Line 179: the serials are the text before the first tab of every line that contains
  \<^verbatim>\<open>device\<close> and does not contain the header text.
\<close>

definition device_line :: "string \<Rightarrow> bool" where
  "device_line line \<longleftrightarrow>
     contains line ''device'' \<and> \<not> contains line ''List of devices attached''"

definition devices_of :: "string \<Rightarrow> string list" where
  "devices_of output = map split_tab_first (filter device_line (splitlines output))"

text \<open>The two \<^verbatim>\<open>except\<close> branches, lines 218 to 227.\<close>

definition adb_not_found :: "app \<Rightarrow> app" where
  "adb_not_found s = s\<lparr>adb_status := ''[red]ERROR: ADB command not found[/red]'',
     device_info := ''N/A'', adb_ready := False\<rparr>"

definition connection_error :: "app \<Rightarrow> app" where
  "connection_error s = s\<lparr>adb_status := ''[red]Connection Error[/red]'',
     device_info := ''N/A'', adb_ready := False\<rparr>"

text \<open>
  Lines 201 to 216: the authorization probe, run with the serial that is bound by then.
  Only the captured stderr is looked at; the return code is not.
\<close>

definition authorization_check :: "env \<Rightarrow> app \<Rightarrow> app" where
  "authorization_check env s =
     (case create_subprocess_exec env s
             [ADB_PATH, ''-s'', DEVICE_SERIAL s, ''shell'', ''echo'', ''test''] of
        (FileNotFoundError, s') \<Rightarrow> adb_not_found s'
      | (OtherException, s') \<Rightarrow> connection_error s'
      | (Exited rc out err, s') \<Rightarrow>
          if contains err ''device unauthorized''
          then s'\<lparr>adb_status := ''[red]Auth Failed[/red]'',
                  device_info := DEVICE_SERIAL s', adb_ready := False\<rparr>
          else s'\<lparr>adb_status := ''[green]Connected[/green]'',
                  device_info := DEVICE_SERIAL s', adb_ready := True\<rparr>)"

text \<open>
  Lines 181 to 216, with the list \<^verbatim>\<open>devices\<close> of line 179 at hand: no device, several
  devices and no serial to choose by, or a serial that is adopted (line 193) or looked up
  (line 194) before the authorization probe.
\<close>

definition select_device :: "env \<Rightarrow> app \<Rightarrow> string list \<Rightarrow> app" where
  "select_device env s devices =
     (case devices of
        [] \<Rightarrow> s\<lparr>adb_status := ''[red]Disconnected[/red]'',
                 device_info := ''N/A'', adb_ready := False\<rparr>
      | d # ds \<Rightarrow>
          if length devices > 1 \<and> DEVICE_SERIAL s = []
          then s\<lparr>adb_status := ''[yellow]Multiple Devices[/yellow]'',
                 device_info := ''Please specify serial (found: ''
                    @ join '', '' devices @ '')'',
                 adb_ready := False\<rparr>
          else if DEVICE_SERIAL s = []
          then authorization_check env (s\<lparr>DEVICE_SERIAL := d\<rparr>)
          else if DEVICE_SERIAL s \<notin> set devices
          then s\<lparr>adb_status := ''[red]Specified Device Not Found[/red]'',
                 device_info := DEVICE_SERIAL s, adb_ready := False\<rparr>
          else authorization_check env s)"

text \<open>
  Lines 165 to 227. The assignment to the global \<^verbatim>\<open>DEVICE_SERIAL\<close> in line 193 stays
  when the probe after it raises.
\<close>

definition check_adb_connection :: "env \<Rightarrow> app \<Rightarrow> app" where
  "check_adb_connection env s =
     (case create_subprocess_exec env s [ADB_PATH, ''devices''] of
        (FileNotFoundError, s1) \<Rightarrow> adb_not_found s1
      | (OtherException, s1) \<Rightarrow> connection_error s1
      | (Exited rc out err, s1) \<Rightarrow>
          (case decode out of
             None \<Rightarrow> connection_error s1
           | Some text \<Rightarrow> select_device env s1 (devices_of (strip text))))"

section \<open>Regular expressions\<close>

text \<open>
  The two patterns of \<^verbatim>\<open>get_linux_interface_status\<close> are built from literal text,
  character classes, sequence, alternation and greedy repetition of one class. \<open>ms r s\<close>
  lists, in the order a backtracking matcher tries them, what is left of \<open>s\<close> after a
  match of \<open>r\<close> at its start: \<^verbatim>\<open>a|b\<close> tries \<^verbatim>\<open>a\<close> first, and a greedy repetition gives up
  characters one at a time.
\<close>

datatype cls = Digit | NonSpace | Dot

text \<open>
  \<^verbatim>\<open>\d\<close> is a decimal digit, \<^verbatim>\<open>\S\<close> anything that is not whitespace, and \<^verbatim>\<open>.\<close>
  (without \<^verbatim>\<open>DOTALL\<close>) anything but a line feed.
\<close>

definition is_digit :: "char \<Rightarrow> bool" where
  "is_digit c \<longleftrightarrow> c \<in> set ''0123456789''"

fun in_cls :: "cls \<Rightarrow> char \<Rightarrow> bool" where
  "in_cls Digit c = is_digit c"
| "in_cls NonSpace c = (\<not> isspace c)"
| "in_cls Dot c = (c \<noteq> CHR 0x0A)"

datatype regex =
    Lit string
  | One cls
  | Star cls
  | Seq regex regex
  | Alt regex regex

fun ms :: "regex \<Rightarrow> string \<Rightarrow> string list" where
  "ms (Lit l) s = (if take (length l) s = l then [drop (length l) s] else [])"
| "ms (One k) [] = []"
| "ms (One k) (c # cs) = (if in_cls k c then [cs] else [])"
| "ms (Star k) [] = [[]]"
| "ms (Star k) (c # cs) = (if in_cls k c then ms (Star k) cs @ [c # cs] else [c # cs])"
| "ms (Seq a b) s = concat (map (ms b) (ms a s))"
| "ms (Alt a b) s = ms a s @ ms b s"

text \<open>\<^verbatim>\<open>k+\<close> and \<^verbatim>\<open>k{1,3}\<close> for a class \<open>k\<close>, both greedy.\<close>

definition Plus :: "cls \<Rightarrow> regex" where
  "Plus k = Seq (One k) (Star k)"

definition Upto3 :: "cls \<Rightarrow> regex" where
  "Upto3 k = Seq (One k) (Alt (Seq (One k) (Alt (One k) (Lit []))) (Lit []))"

text \<open>
  A pattern with one group is given as the part before the group, the group and the part
  after it. \<open>match_here\<close> is \<^verbatim>\<open>group(1)\<close> of the first match that starts at the beginning
  of \<open>s\<close>; \<open>re_search\<close> is \<^verbatim>\<open>re.search(...).group(1)\<close>: the match at the leftmost position
  where there is one, or \<open>None\<close>.
\<close>

definition groups_here :: "regex \<Rightarrow> regex \<Rightarrow> regex \<Rightarrow> string \<Rightarrow> string list" where
  "groups_here pre grp post s =
     concat (map (\<lambda>s1. concat (map (\<lambda>s2.
        map (\<lambda>_. take (length s1 - length s2) s1) (ms post s2)) (ms grp s1))) (ms pre s))"

definition match_here :: "regex \<Rightarrow> regex \<Rightarrow> regex \<Rightarrow> string \<Rightarrow> string option" where
  "match_here pre grp post s =
     (case groups_here pre grp post s of [] \<Rightarrow> None | g # _ \<Rightarrow> Some g)"

fun re_search :: "regex \<Rightarrow> regex \<Rightarrow> regex \<Rightarrow> string \<Rightarrow> string option" where
  "re_search pre grp post [] = match_here pre grp post []"
| "re_search pre grp post (c # cs) =
     (case match_here pre grp post (c # cs) of
        Some g \<Rightarrow> Some g
      | None \<Rightarrow> re_search pre grp post cs)"

section \<open>\<^verbatim>\<open>get_linux_interface_status\<close>\<close>

text \<open>
  Line 241: \<^verbatim>\<open>\d+: (usb\d+|rndis\d+|enp\S+u\d+): <.*BROADCAST,MULTICAST,UP.*>\<close>.
\<close>

definition link_pre :: regex where
  "link_pre = Seq (Plus Digit) (Lit '': '')"

definition link_name :: regex where
  "link_name = Alt (Seq (Lit ''usb'') (Plus Digit))
              (Alt (Seq (Lit ''rndis'') (Plus Digit))
                   (Seq (Lit ''enp'') (Seq (Plus NonSpace) (Seq (Lit ''u'') (Plus Digit)))))"

definition link_post :: regex where
  "link_post = Seq (Lit '': <'') (Seq (Star Dot) (Seq (Lit ''BROADCAST,MULTICAST,UP'')
                 (Seq (Star Dot) (Lit ''>''))))"

text \<open>Line 253: \<^verbatim>\<open>inet (\d{1,3}\.\d{1,3}\.\d{1,3}\.\d{1,3})\<close>.\<close>

definition inet_pre :: regex where
  "inet_pre = Lit ''inet ''"

definition inet_addr :: regex where
  "inet_addr = Seq (Upto3 Digit) (Seq (Lit ''.'') (Seq (Upto3 Digit) (Seq (Lit ''.'')
                 (Seq (Upto3 Digit) (Seq (Lit ''.'') (Upto3 Digit))))))"

definition inet_post :: regex where
  "inet_post = Lit []"

definition ip_missing :: "app \<Rightarrow> app" where
  "ip_missing s = s\<lparr>linux_iface_status := ''[red]ERROR: '' @ [CHR 0x27] @ ''ip''
                       @ [CHR 0x27] @ '' missing[/red]''\<rparr>"

definition error_checking :: "app \<Rightarrow> app" where
  "error_checking s = s\<lparr>linux_iface_status := ''[red]Error Checking[/red]''\<rparr>"

text \<open>Lines 244 to 259: the address query for the interface that was found.\<close>

definition address_query :: "env \<Rightarrow> app \<Rightarrow> string \<Rightarrow> app" where
  "address_query env s interface_name =
     (case create_subprocess_exec env s
             [''ip'', ''-4'', ''addr'', ''show'', ''dev'', interface_name] of
        (FileNotFoundError, s') \<Rightarrow> ip_missing s'
      | (OtherException, s') \<Rightarrow> error_checking s'
      | (Exited rc out err, s') \<Rightarrow>
          (case decode out of
             None \<Rightarrow> error_checking s'
           | Some text \<Rightarrow>
               (case re_search inet_pre inet_addr inet_post (strip text) of
                  Some ip \<Rightarrow> s'\<lparr>linux_iface_status :=
                    ''[green]'' @ interface_name @ '' (IP: '' @ ip @ '')[/green]''\<rparr>
                | None \<Rightarrow> s'\<lparr>linux_iface_status :=
                    ''[yellow]'' @ interface_name @ '' (No IP)[/yellow]''\<rparr>)))"

text \<open>Lines 229 to 269.\<close>

definition get_linux_interface_status :: "env \<Rightarrow> app \<Rightarrow> app" where
  "get_linux_interface_status env s =
     (case create_subprocess_exec env s [''ip'', ''link'', ''show''] of
        (FileNotFoundError, s') \<Rightarrow> ip_missing s'
      | (OtherException, s') \<Rightarrow> error_checking s'
      | (Exited rc out err, s') \<Rightarrow>
          (case decode out of
             None \<Rightarrow> error_checking s'
           | Some text \<Rightarrow>
               (case re_search link_pre link_name link_post (strip text) of
                  None \<Rightarrow> s'\<lparr>linux_iface_status := ''[red]Not Detected[/red]''\<rparr>
                | Some interface_name \<Rightarrow> address_query env s' interface_name)))"

section \<open>Refresh and the buttons\<close>

text \<open>Lines 113 to 117.\<close>

definition action_refresh_status :: "env \<Rightarrow> app \<Rightarrow> app" where
  "action_refresh_status env s = get_linux_interface_status env (check_adb_connection env s)"

text \<open>The argument lists of the commands that change the device, lines 282 to 300.\<close>

definition cmd_root :: "string list" where
  "cmd_root = [''root'']"

definition cmd_dun :: "string \<Rightarrow> string list" where
  "cmd_dun v = [''shell'', ''settings'', ''put'', ''global'', ''tether_dun_required'', v]"

definition cmd_usb :: "string \<Rightarrow> string list" where
  "cmd_usb f = [''shell'', ''svc'', ''usb'', ''setFunctions'', f]"

definition cmd_offload :: "string \<Rightarrow> string list" where
  "cmd_offload v = [''shell'', ''settings'', ''put'', ''global'', ''tether_offload_disabled'', v]"

text \<open>
  Lines 282 to 288, the commands of the enable branch: \<^verbatim>\<open>success\<close> is threaded as the
  source threads it, and the result of the \<^verbatim>\<open>root\<close> command is dropped.
\<close>

definition enable_commands :: "env \<Rightarrow> app \<Rightarrow> app" where
  "enable_commands env s =
     (let (_, s1) = run_adb_command env s cmd_root;
          (success, s2) = run_adb_command env s1 (cmd_dun ''0'');
          (success, s3) = (if success then run_adb_command env s2 (cmd_usb ''rndis'')
                           else (success, s2));
          (_, s4) = (if success then run_adb_command env s3 (cmd_offload ''1'')
                     else (success, s3))
      in s4)"

text \<open>Lines 296 to 300, the commands of the disable branch.\<close>

definition disable_commands :: "env \<Rightarrow> app \<Rightarrow> app" where
  "disable_commands env s =
     (let (success, s1) = run_adb_command env s (cmd_offload ''0'');
          (success, s2) = (if success then run_adb_command env s1 (cmd_dun ''1'')
                           else (success, s1));
          (_, s3) = (if success then run_adb_command env s2 (cmd_usb ''mtp,adb'')
                     else (success, s2))
      in s3)"

text \<open>
  Lines 272 to 305. The guard of line 275 stands before all three buttons; a button with
  another id does nothing.
\<close>

definition on_button_pressed :: "env \<Rightarrow> app \<Rightarrow> string \<Rightarrow> app" where
  "on_button_pressed env s button_id =
     (if DEVICE_SERIAL s = [] \<or> \<not> adb_ready s then s
      else if button_id = ''enable-btn''
      then action_refresh_status env (enable_commands env s)
      else if button_id = ''disable-btn''
      then action_refresh_status env (disable_commands env s)
      else if button_id = ''refresh-btn''
      then action_refresh_status env s
      else s)"

section \<open>Observing a run\<close>

text \<open>
  What \<^verbatim>\<open>run_adb_command\<close> returns, read off the outcome of the command it spawned
  (lines 146 to 163): \<open>True\<close> for return code 0 with output that the log line could
  decode.
\<close>

definition succeeded :: "outcome \<Rightarrow> bool" where
  "succeeded out =
     (case out of
        Exited rc so se \<Rightarrow> rc = 0 \<and> (so = [] \<or> utf8_valid so)
      | _ \<Rightarrow> False)"

text \<open>The commands spawned between a state and a later one, with their outcomes.\<close>

definition new_spawns :: "app \<Rightarrow> app \<Rightarrow> history" where
  "new_spawns s s' = drop (length (spawned s)) (spawned s')"

text \<open>
  The arguments of a bridge command line, after \<^verbatim>\<open>ADB_PATH\<close> and the \<^verbatim>\<open>-s serial\<close>
  prefix when there is one.
\<close>

definition adb_args :: "string list \<Rightarrow> string list option" where
  "adb_args argv =
     (case argv of
        [] \<Rightarrow> None
      | a # rest \<Rightarrow>
          if a \<noteq> ADB_PATH then None
          else (case rest of
                  f # ser # args \<Rightarrow> if f = ''-s'' then Some args else Some rest
                | _ \<Rightarrow> Some rest))"

text \<open>
  The command lines that change the device: \<^verbatim>\<open>root\<close>, \<^verbatim>\<open>shell settings put global\<close>
  and \<^verbatim>\<open>shell svc usb setFunctions\<close>. The probes of a refresh (\<^verbatim>\<open>adb devices\<close>,
  \<^verbatim>\<open>shell echo test\<close>, \<^verbatim>\<open>ip\<close>) are not among them.
\<close>

definition changes_device :: "string list \<Rightarrow> bool" where
  "changes_device argv =
     (case adb_args argv of
        None \<Rightarrow> False
      | Some args \<Rightarrow>
          args = cmd_root
          \<or> take 4 args = [''shell'', ''settings'', ''put'', ''global'']
          \<or> take 4 args = [''shell'', ''svc'', ''usb'', ''setFunctions''])"

definition device_commands :: "app \<Rightarrow> app \<Rightarrow> history" where
  "device_commands s s' = filter (\<lambda>entry. changes_device (fst entry)) (new_spawns s s')"

text \<open>The command line of a step for the device with the given serial.\<close>

definition step :: "string \<Rightarrow> string list \<Rightarrow> string list" where
  "step serial command_args = [ADB_PATH, ''-s'', serial] @ command_args"




text \<open>
  The operations a user or the five-second timer of \<^verbatim>\<open>on_mount\<close> can start: a refresh, or
  a button press with the id of the button. They are taken one after the other.
\<close>

datatype operation = Refresh | Press string

fun perform :: "env \<Rightarrow> app \<Rightarrow> operation \<Rightarrow> app" where
  "perform env s Refresh = action_refresh_status env s"
| "perform env s (Press button_id) = on_button_pressed env s button_id"

fun run :: "env \<Rightarrow> app \<Rightarrow> operation list \<Rightarrow> app" where
  "run env s [] = s"
| "run env s (x # xs) = run env (perform env s x) xs"

text \<open>
  What a refresh reports about the device: the connection status, the device shown, the
  readiness and the bound serial.
\<close>

definition device_record :: "app \<Rightarrow> string \<times> string \<times> bool \<times> string" where
  "device_record s = (adb_status s, device_info s, adb_ready s, DEVICE_SERIAL s)"

section \<open>The words of the specification about device lines\<close>



section \<open>What the two patterns accept\<close>










section \<open>The words of the specification about links\<close>





section \<open>Example environments\<close>

text \<open>
  One authorized device \<^verbatim>\<open>ABC123\<close> that accepts every command and prints nothing, on a
  host without a tethering interface.
\<close>

definition devices_listing :: string where
  "devices_listing =
     ''List of devices attached'' @ [CHR 0x0A] @ ''ABC123'' @ [CHR 0x09] @ ''device'' @ [CHR 0x0A]"

definition env_one_device :: env where
  "env_one_device h argv =
     (if argv = [ADB_PATH, ''devices''] then Exited 0 devices_listing [] else Exited 0 [] [])"



text \<open>A session that is bound to \<^verbatim>\<open>ABC123\<close> and ready.\<close>

definition session :: app where
  "session = (initial ''ABC123'')\<lparr>adb_ready := True\<rparr>"














section \<open>The guard before the buttons\<close>

text \<open>
  Claim C1. When the session is not ready (no serial is bound, or \<^verbatim>\<open>adb_ready\<close> is
  false), pressing a button (enable, disable or any other) returns at once: the state is
  the one before, and no command has been spawned, so nothing was sent to the device.
\<close>

theorem not_ready_no_command:
  "DEVICE_SERIAL s = [] \<or> \<not> adb_ready s \<Longrightarrow>
     on_button_pressed env s button_id = s \<and>
     spawned (on_button_pressed env s button_id) = spawned s"
  by (simp add: on_button_pressed_def)

theorem not_ready_no_command_witness:
  "(DEVICE_SERIAL (initial []) = [] \<or> \<not> adb_ready (initial [])) \<and>
   on_button_pressed (\<lambda>h argv. Exited 0 [] []) (initial []) ''enable-btn'' = initial [] \<and>
   spawned (on_button_pressed (\<lambda>h argv. Exited 0 [] []) (initial []) ''enable-btn'') = []"
  using not_ready_no_command [of "initial []" "\<lambda>h argv. Exited 0 [] []" "''enable-btn''"]
  by (simp add: initial_def)

section \<open>Evaluating the model\<close>

lemmas eval_defs = on_button_pressed_def enable_commands_def disable_commands_def
  run_adb_command_def create_subprocess_exec_def full_command_def action_refresh_status_def
  check_adb_connection_def select_device_def authorization_check_def
  get_linux_interface_status_def address_query_def decode_def is_ascii_def devices_of_def
  device_line_def strip_def isspace_def splitlines_def is_linebreak_def split_tab_first_def
  ADB_PATH_def step_def cmd_root_def cmd_dun_def cmd_usb_def cmd_offload_def adb_not_found_def
  connection_error_def ip_missing_def error_checking_def link_pre_def link_name_def
  link_post_def inet_pre_def inet_addr_def inet_post_def Plus_def Upto3_def is_digit_def
  match_here_def
  groups_here_def initial_def session_def device_commands_def new_spawns_def
  changes_device_def adb_args_def devices_listing_def env_one_device_def Let_def


lemma serial_session: "''ABC123'' = DEVICE_SERIAL session"
  by (simp add: session_def initial_def)

section \<open>What a command run leaves in the history\<close>

lemma run_adb_command_eq:
  "run_adb_command env s args =
     (succeeded (env (spawned s) (full_command s args)),
      s\<lparr>spawned := spawned s @ [(full_command s args, env (spawned s) (full_command s args))]\<rparr>)"
  by (simp add: run_adb_command_def create_subprocess_exec_def succeeded_def Let_def
           split: outcome.splits)















section \<open>The bound serial\<close>

lemma create_subprocess_exec_serial:
  "create_subprocess_exec env s argv = (out, s') \<Longrightarrow> DEVICE_SERIAL s' = DEVICE_SERIAL s"
  by (auto simp: create_subprocess_exec_def Let_def)

lemma authorization_check_serial:
  "DEVICE_SERIAL (authorization_check env s) = DEVICE_SERIAL s"
proof -
  obtain out s' where c: "create_subprocess_exec env s
      [ADB_PATH, ''-s'', DEVICE_SERIAL s, ''shell'', ''echo'', ''test''] = (out, s')"
    by force
  from c have "DEVICE_SERIAL s' = DEVICE_SERIAL s"
    by (rule create_subprocess_exec_serial)
  then show ?thesis
    by (cases out) (simp_all add: authorization_check_def c adb_not_found_def connection_error_def)
qed

lemma select_device_serial:
  "DEVICE_SERIAL s \<noteq> [] \<Longrightarrow> DEVICE_SERIAL (select_device env s devices) = DEVICE_SERIAL s"
  by (cases devices) (simp_all add: select_device_def authorization_check_serial)

lemma check_adb_connection_serial:
  assumes "DEVICE_SERIAL s \<noteq> []"
  shows "DEVICE_SERIAL (check_adb_connection env s) = DEVICE_SERIAL s"
proof -
  obtain out s' where c: "create_subprocess_exec env s [ADB_PATH, ''devices''] = (out, s')"
    by force
  from c have "DEVICE_SERIAL s' = DEVICE_SERIAL s"
    by (rule create_subprocess_exec_serial)
  with assms show ?thesis
    by (cases out) (simp_all add: check_adb_connection_def c adb_not_found_def
        connection_error_def select_device_serial split: option.splits)
qed

lemma address_query_serial:
  "DEVICE_SERIAL (address_query env s n) = DEVICE_SERIAL s"
proof -
  obtain out s' where c: "create_subprocess_exec env s
      [''ip'', ''-4'', ''addr'', ''show'', ''dev'', n] = (out, s')"
    by force
  from c have "DEVICE_SERIAL s' = DEVICE_SERIAL s"
    by (rule create_subprocess_exec_serial)
  then show ?thesis
    by (cases out) (simp_all add: address_query_def c ip_missing_def error_checking_def
        split: option.splits)
qed

lemma get_linux_interface_status_serial:
  "DEVICE_SERIAL (get_linux_interface_status env s) = DEVICE_SERIAL s"
proof -
  obtain out s' where c: "create_subprocess_exec env s [''ip'', ''link'', ''show''] = (out, s')"
    by force
  from c have "DEVICE_SERIAL s' = DEVICE_SERIAL s"
    by (rule create_subprocess_exec_serial)
  then show ?thesis
    by (cases out) (simp_all add: get_linux_interface_status_def c ip_missing_def
        error_checking_def address_query_serial split: option.splits)
qed

lemma action_refresh_status_serial:
  "DEVICE_SERIAL s \<noteq> [] \<Longrightarrow> DEVICE_SERIAL (action_refresh_status env s) = DEVICE_SERIAL s"
  by (simp add: action_refresh_status_def get_linux_interface_status_serial
      check_adb_connection_serial)

lemma enable_commands_serial:
  "DEVICE_SERIAL (enable_commands env s) = DEVICE_SERIAL s"
  by (simp add: enable_commands_def run_adb_command_eq Let_def)

lemma disable_commands_serial:
  "DEVICE_SERIAL (disable_commands env s) = DEVICE_SERIAL s"
  by (simp add: disable_commands_def run_adb_command_eq Let_def)

lemma on_button_pressed_serial:
  "DEVICE_SERIAL (on_button_pressed env s b) = DEVICE_SERIAL s"
  by (simp add: on_button_pressed_def action_refresh_status_serial enable_commands_serial
      disable_commands_serial)

lemma perform_serial:
  "DEVICE_SERIAL s \<noteq> [] \<Longrightarrow> DEVICE_SERIAL (perform env s x) = DEVICE_SERIAL s"
  by (cases x) (simp_all add: action_refresh_status_serial on_button_pressed_serial)


section \<open>The enable and disable pipelines\<close>











section \<open>The round trip\<close>











section \<open>The serial is bound once\<close>

text \<open>
  Claim C9. One operation changes the bound serial only when none was bound before it,
  and over every sequence of refreshes and button presses, in whatever environment, a
  serial that is bound stays the same.
\<close>

theorem serial_never_reassigned:
  "(DEVICE_SERIAL (perform env s x) \<noteq> DEVICE_SERIAL s \<longrightarrow> DEVICE_SERIAL s = []) \<and>
   (DEVICE_SERIAL s \<noteq> [] \<longrightarrow> DEVICE_SERIAL (run env s ops) = DEVICE_SERIAL s)"
proof
  show "DEVICE_SERIAL (perform env s x) \<noteq> DEVICE_SERIAL s \<longrightarrow> DEVICE_SERIAL s = []"
    using perform_serial by blast
  have "DEVICE_SERIAL t \<noteq> [] \<Longrightarrow> DEVICE_SERIAL (run env t ops) = DEVICE_SERIAL t" for t
  proof (induction ops arbitrary: t)
    case Nil
    show ?case by simp
  next
    case (Cons y ys)
    from Cons.prems have p: "DEVICE_SERIAL (perform env t y) = DEVICE_SERIAL t"
      by (rule perform_serial)
    with Cons.prems have "DEVICE_SERIAL (perform env t y) \<noteq> []" by simp
    then have "DEVICE_SERIAL (run env (perform env t y) ys) = DEVICE_SERIAL (perform env t y)"
      by (rule Cons.IH)
    with p show ?case by simp
  qed
  then show "DEVICE_SERIAL s \<noteq> [] \<longrightarrow> DEVICE_SERIAL (run env s ops) = DEVICE_SERIAL s"
    by blast
qed

lemma first_refresh_binds:
  "DEVICE_SERIAL (perform env_one_device (initial []) Refresh) = ''ABC123''"
  by (simp add: eval_defs)

theorem serial_never_reassigned_witness:
  "DEVICE_SERIAL (perform env_one_device (initial []) Refresh) \<noteq> DEVICE_SERIAL (initial []) \<and>
   DEVICE_SERIAL (initial []) = [] \<and>
   DEVICE_SERIAL session \<noteq> [] \<and>
   DEVICE_SERIAL (run env_one_device session
      [Refresh, Press ''enable-btn'', Refresh, Press ''disable-btn'']) = DEVICE_SERIAL session"
proof -
  have a: "DEVICE_SERIAL (perform env_one_device (initial []) Refresh) \<noteq> DEVICE_SERIAL (initial [])"
    unfolding first_refresh_binds by (simp add: initial_def)
  have b: "DEVICE_SERIAL session \<noteq> []"
    by (simp add: serial_session [symmetric])
  from serial_never_reassigned [of env_one_device "initial []" Refresh] a
  have c: "DEVICE_SERIAL (initial []) = []" by blast
  from serial_never_reassigned [of env_one_device session] b
  have "DEVICE_SERIAL (run env_one_device session
      [Refresh, Press ''enable-btn'', Refresh, Press ''disable-btn'']) = DEVICE_SERIAL session"
    by blast
  with a b c show ?thesis by blast
qed


section \<open>Discovery\<close>

















section \<open>Refreshing twice\<close>

lemma authorization_check_fixed:
  assumes "\<And>h argv. env h argv = e argv" and "DEVICE_SERIAL s = DEVICE_SERIAL t"
  shows "device_record (authorization_check env s) = device_record (authorization_check env t)"
proof (cases "e [ADB_PATH, ''-s'', DEVICE_SERIAL t, ''shell'', ''echo'', ''test'']")
  case FileNotFoundError
  then show ?thesis
    by (simp add: authorization_check_def create_subprocess_exec_def Let_def assms
        device_record_def adb_not_found_def)
next
  case OtherException
  then show ?thesis
    by (simp add: authorization_check_def create_subprocess_exec_def Let_def assms
        device_record_def connection_error_def)
next
  case (Exited rc out err)
  then show ?thesis
    by (simp add: authorization_check_def create_subprocess_exec_def Let_def assms
        device_record_def)
qed

lemma select_device_fixed:
  assumes "\<And>h argv. env h argv = e argv" and "DEVICE_SERIAL s = DEVICE_SERIAL t"
  shows "device_record (select_device env s devices) = device_record (select_device env t devices)"
proof (cases devices)
  case Nil
  then show ?thesis by (simp add: select_device_def device_record_def assms(2))
next
  case (Cons d ds)
  have a: "device_record (authorization_check env (s\<lparr>DEVICE_SERIAL := d\<rparr>))
      = device_record (authorization_check env (t\<lparr>DEVICE_SERIAL := d\<rparr>))"
    by (rule authorization_check_fixed [OF assms(1)]) simp
  have b: "device_record (authorization_check env s) = device_record (authorization_check env t)"
    by (rule authorization_check_fixed [OF assms])
  show ?thesis
  proof (cases "DEVICE_SERIAL t = []")
    case True
    show ?thesis
    proof (cases "ds = []")
      case True
      with \<open>DEVICE_SERIAL t = []\<close> Cons assms(2) a show ?thesis
        by (simp add: select_device_def)
    next
      case False
      with \<open>DEVICE_SERIAL t = []\<close> Cons assms(2) show ?thesis
        by (simp add: select_device_def device_record_def)
    qed
  next
    case False
    show ?thesis
    proof (cases "DEVICE_SERIAL t \<in> set devices")
      case True
      with \<open>DEVICE_SERIAL t \<noteq> []\<close> Cons assms(2) b show ?thesis
        by (simp add: select_device_def)
    next
      case False
      with \<open>DEVICE_SERIAL t \<noteq> []\<close> Cons assms(2) show ?thesis
        by (simp add: select_device_def device_record_def)
    qed
  qed
qed

lemma check_adb_connection_fixed:
  assumes "\<And>h argv. env h argv = e argv" and "DEVICE_SERIAL s = DEVICE_SERIAL t"
  shows "device_record (check_adb_connection env s) = device_record (check_adb_connection env t)"
proof (cases "e [ADB_PATH, ''devices'']")
  case FileNotFoundError
  then show ?thesis
    by (simp add: check_adb_connection_def create_subprocess_exec_def Let_def assms
        device_record_def adb_not_found_def)
next
  case OtherException
  then show ?thesis
    by (simp add: check_adb_connection_def create_subprocess_exec_def Let_def assms
        device_record_def connection_error_def)
next
  case (Exited rc out err)
  show ?thesis
  proof (cases "decode out")
    case None
    with Exited show ?thesis
      by (simp add: check_adb_connection_def create_subprocess_exec_def Let_def assms
          device_record_def connection_error_def)
  next
    case (Some listing)
    have "device_record (select_device env (s\<lparr>spawned := spawned s @ [([ADB_PATH, ''devices''], Exited rc out err)]\<rparr>) (devices_of (strip listing)))
      = device_record (select_device env (t\<lparr>spawned := spawned t @ [([ADB_PATH, ''devices''], Exited rc out err)]\<rparr>) (devices_of (strip listing)))"
      by (rule select_device_fixed [OF assms(1)]) (simp add: assms(2))
    with Exited Some show ?thesis
      by (simp add: check_adb_connection_def create_subprocess_exec_def Let_def assms(1))
  qed
qed

lemma serial_update_same: "DEVICE_SERIAL s = v \<Longrightarrow> s\<lparr>DEVICE_SERIAL := v\<rparr> = s"
  by (cases s) simp

lemma serial_update_spawned:
  "s\<lparr>DEVICE_SERIAL := d, spawned := h\<rparr> = s\<lparr>spawned := h, DEVICE_SERIAL := d\<rparr>"
  by (cases s) simp

lemma select_device_resolved:
  "select_device env (s\<lparr>DEVICE_SERIAL := DEVICE_SERIAL (select_device env s devices)\<rparr>) devices
     = select_device env s devices"
proof (cases "DEVICE_SERIAL s = []")
  case False
  then have "DEVICE_SERIAL (select_device env s devices) = DEVICE_SERIAL s"
    by (rule select_device_serial)
  then show ?thesis by simp
next
  case True
  show ?thesis
  proof (cases devices)
    case Nil
    with True show ?thesis by (simp add: select_device_def)
  next
    case (Cons d ds)
    show ?thesis
    proof (cases "ds = [] \<and> d \<noteq> []")
      case False
      with True Cons have "DEVICE_SERIAL (select_device env s devices) = []"
        by (auto simp: select_device_def authorization_check_serial)
      with True show ?thesis by (simp add: serial_update_same)
    next
      case t: True
      with True Cons have "DEVICE_SERIAL (select_device env s devices) = d"
        by (simp add: select_device_def authorization_check_serial)
      with True Cons t show ?thesis
        by (simp add: select_device_def)
    qed
  qed
qed

lemma check_adb_connection_resolved:
  "check_adb_connection env (s\<lparr>DEVICE_SERIAL := DEVICE_SERIAL (check_adb_connection env s)\<rparr>)
     = check_adb_connection env s"
proof (cases "env (spawned s) [ADB_PATH, ''devices'']")
  case FileNotFoundError
  then show ?thesis
    by (simp add: check_adb_connection_def create_subprocess_exec_def Let_def adb_not_found_def)
next
  case OtherException
  then show ?thesis
    by (simp add: check_adb_connection_def create_subprocess_exec_def Let_def connection_error_def)
next
  case (Exited rc out err)
  show ?thesis
  proof (cases "decode out")
    case None
    with Exited show ?thesis
      by (simp add: check_adb_connection_def create_subprocess_exec_def Let_def connection_error_def)
  next
    case (Some listing)
    define s1 where "s1 = s\<lparr>spawned := spawned s @ [([ADB_PATH, ''devices''], Exited rc out err)]\<rparr>"
    have c: "check_adb_connection env s = select_device env s1 (devices_of (strip listing))"
      using Exited Some by (simp add: check_adb_connection_def create_subprocess_exec_def Let_def s1_def)
    have "check_adb_connection env (s\<lparr>DEVICE_SERIAL := DEVICE_SERIAL (check_adb_connection env s)\<rparr>)
        = select_device env (s1\<lparr>DEVICE_SERIAL := DEVICE_SERIAL (select_device env s1 (devices_of (strip listing)))\<rparr>) (devices_of (strip listing))"
      using Exited Some unfolding c
      by (simp add: check_adb_connection_def create_subprocess_exec_def Let_def s1_def
          serial_update_spawned)
    then show ?thesis
      unfolding c select_device_resolved .
  qed
qed

lemma address_query_frame:
  "device_record (address_query env s n) = device_record s"
  by (cases "env (spawned s) [''ip'', ''-4'', ''addr'', ''show'', ''dev'', n]")
    (simp_all add: address_query_def create_subprocess_exec_def Let_def device_record_def
      ip_missing_def error_checking_def split: option.splits)

lemma get_linux_interface_status_frame:
  "device_record (get_linux_interface_status env s) = device_record s"
proof -
  have "device_record (address_query env t n) = device_record s"
    if "device_record t = device_record s" for t n
    using that by (simp add: address_query_frame)
  then show ?thesis
    by (cases "env (spawned s) [''ip'', ''link'', ''show'']")
      (simp_all add: get_linux_interface_status_def create_subprocess_exec_def Let_def
        ip_missing_def error_checking_def split: option.splits,
       simp_all add: device_record_def)
qed

lemma address_query_fixed:
  assumes "\<And>h argv. env h argv = e argv"
  shows "linux_iface_status (address_query env s n) = linux_iface_status (address_query env t n)"
  by (cases "e [''ip'', ''-4'', ''addr'', ''show'', ''dev'', n]")
    (simp_all add: address_query_def create_subprocess_exec_def Let_def assms
      ip_missing_def error_checking_def split: option.splits)

lemma get_linux_interface_status_fixed:
  assumes "\<And>h argv. env h argv = e argv"
  shows "linux_iface_status (get_linux_interface_status env s)
    = linux_iface_status (get_linux_interface_status env t)"
  using address_query_fixed [of env e, OF assms]
  by (cases "e [''ip'', ''link'', ''show'']")
    (simp_all add: get_linux_interface_status_def create_subprocess_exec_def Let_def assms
      ip_missing_def error_checking_def split: option.splits)

text \<open>
  Claim C8. In an environment whose answers do not depend on what was spawned before
  (nothing outside changes between the calls), a refresh that follows a refresh reports
  the same device record and the same interface status as the first, also when the first
  one bound the serial.
\<close>

theorem refresh_idempotent:
  assumes "\<And>h argv. env h argv = e argv"
    and "s1 = action_refresh_status env s"
    and "s2 = action_refresh_status env s1"
  shows "device_record s2 = device_record s1 \<and> linux_iface_status s2 = linux_iface_status s1"
proof
  define c1 where "c1 = check_adb_connection env s"
  have r1: "device_record s1 = device_record c1"
    by (simp add: assms(2) action_refresh_status_def get_linux_interface_status_frame c1_def)
  then have "DEVICE_SERIAL s1 = DEVICE_SERIAL (s\<lparr>DEVICE_SERIAL := DEVICE_SERIAL c1\<rparr>)"
    by (simp add: device_record_def)
  with assms(1) have "device_record (check_adb_connection env s1)
      = device_record (check_adb_connection env (s\<lparr>DEVICE_SERIAL := DEVICE_SERIAL c1\<rparr>))"
    by (rule check_adb_connection_fixed)
  also have "\<dots> = device_record c1"
    unfolding c1_def check_adb_connection_resolved ..
  finally have "device_record (check_adb_connection env s1) = device_record s1"
    using r1 by simp
  then show "device_record s2 = device_record s1"
    by (simp add: assms(3) action_refresh_status_def get_linux_interface_status_frame)
  show "linux_iface_status s2 = linux_iface_status s1"
    unfolding assms(2,3) action_refresh_status_def
    by (rule get_linux_interface_status_fixed [OF assms(1)])
qed

theorem refresh_idempotent_witness:
  "DEVICE_SERIAL (initial []) = [] \<and>
   DEVICE_SERIAL (action_refresh_status env_one_device (initial [])) = ''ABC123'' \<and>
   device_record (action_refresh_status env_one_device
      (action_refresh_status env_one_device (initial [])))
     = device_record (action_refresh_status env_one_device (initial [])) \<and>
   linux_iface_status (action_refresh_status env_one_device
      (action_refresh_status env_one_device (initial [])))
     = linux_iface_status (action_refresh_status env_one_device (initial []))"
proof -
  have a: "DEVICE_SERIAL (initial []) = []"
    by (simp add: initial_def)
  have b: "DEVICE_SERIAL (action_refresh_status env_one_device (initial [])) = ''ABC123''"
    by (simp add: eval_defs)
  have f: "env_one_device h argv = env_one_device [] argv" for h argv
    by (simp add: env_one_device_def)
  from refresh_idempotent [of env_one_device "env_one_device []", OF f refl refl] a b
  show ?thesis by blast
qed


section \<open>The matcher finds what the patterns accept\<close>































section \<open>The host interface probe\<close>














end
